theory Spec2Isabelle
  imports Main "HOL-Library.Word" "HOL-Library.Sublist"
begin

section \<open>JavaScript values used by the viewer and the proxy\<close>

text \<open>
  Strings are \<open>string\<close>; the addresses, content identifiers, base64 texts and
  signatures the code handles are ASCII. A byte of a \<open>Uint8Array\<close> is an \<open>8 word\<close>.
\<close>

type_synonym byte = "8 word"

text \<open>
  A thrown value. \<open>Error m\<close> is an object with the message \<open>m\<close> (what
  \<open>new Error(m)\<close> builds); \<open>Thrown s\<close> is any other value, \<open>s\<close> being what
  \<open>String(err)\<close> gives for it.
\<close>

datatype exn = Error string | Thrown string

text \<open>\<open>err?.message ?? String(err)\<close>\<close>

fun exn_text :: "exn \<Rightarrow> string" where
  "exn_text (Error m) = m"
| "exn_text (Thrown s) = s"

text \<open>\<open>s.startsWith(p)\<close>, \<open>s.endsWith(p)\<close>, \<open>s.slice(n)\<close> for \<open>n \<ge> 0\<close>.\<close>

definition startsWith :: "string \<Rightarrow> string \<Rightarrow> bool" where
  "startsWith s p = (take (length p) s = p)"

definition endsWith :: "string \<Rightarrow> string \<Rightarrow> bool" where
  "endsWith s p = (length p \<le> length s \<and> drop (length s - length p) s = p)"

definition slice_from :: "nat \<Rightarrow> string \<Rightarrow> string" where
  "slice_from n s = drop n s"

text \<open>
  \<open>s.toLowerCase()\<close>: the letters A to Z go to a to z. The Unicode mappings of
  characters beyond ASCII are not modelled; none of them yields a hexadecimal digit or
  the letter x, the only characters of the address this is compared with.
\<close>

definition lower_char :: "char \<Rightarrow> char" where
  "lower_char c =
     (if 65 \<le> (of_char c :: nat) \<and> (of_char c :: nat) \<le> 90
      then char_of ((of_char c :: nat) + 32) else c)"

definition toLowerCase :: "string \<Rightarrow> string" where
  "toLowerCase s = map lower_char s"

text \<open>The decimal text of a number, as a template literal or \<open>+\<close> prints it.\<close>

definition digit_char :: "nat \<Rightarrow> char" where
  "digit_char d = ''0123456789'' ! d"

function show_nat :: "nat \<Rightarrow> string" where
  "show_nat n = (if n < 10 then [digit_char n] else show_nat (n div 10) @ [digit_char (n mod 10)])"
  by pat_completeness auto
termination
  by (relation "measure id") auto

declare show_nat.simps [simp del]

section \<open>Configuration of the viewer\<close>

definition OWNER_ADDRESS :: string where
  "OWNER_ADDRESS = toLowerCase ''0x6F4D829488686afd8D9B68AE56986C312784C0e6''"

definition DEFAULT_STORAGE_GATEWAY :: string where
  "DEFAULT_STORAGE_GATEWAY = ''''"

record token =
  tokenId :: string
  name :: string
  storageCid :: string
  fileName :: string

definition TOKENS :: "token list" where
  "TOKENS =
     [\<lparr>tokenId = ''0x4884f459...01'', name = ''DARA Research Passport #1 (test)'',
       storageCid = [], fileName = ''unknown.txt''\<rparr>,
      \<lparr>tokenId = ''0x4884f459...02'', name = ''DARA Research Passport #2'',
       storageCid = ''0xda25a5f5ea40e210db8a662801647b655dd2d1030ab89285441c74ced13e2945'',
       fileName = ''restoreCode.bat''\<rparr>,
      \<lparr>tokenId = ''0x4884f459...03'', name = ''DARA Research Passport #3'',
       storageCid = ''0xbf02c1cab5034303eccda34e461e0f65c3277c217023979ca1901f57ce6ba6b0'',
       fileName = ''0g research.txt''\<rparr>,
      \<lparr>tokenId = ''0x4884f459...04'', name = ''DARA Research Passport #4'',
       storageCid = ''0x175dce81758f5c91c49fb8a0c4af35653bdf92fc21a02daf53adcc3004c0b57c'',
       fileName = ''Renewable Energy.txt''\<rparr>]"

text \<open>
  \<open>normalizeCid\<close>: the falsy string (the empty one) is returned as it is, a string
  starting with \<open>0x\<close> loses its first two characters, any other is returned as it is.
\<close>

definition normalizeCid :: "string \<Rightarrow> string" where
  "normalizeCid cid =
     (if cid = [] then cid
      else if startsWith cid ''0x'' then slice_from 2 cid else cid)"

section \<open>The browser environment and the state of the viewer\<close>

text \<open>
  What the platform and the network answer is not code of the viewer: it is a parameter
  of the model. Each awaited call has an outcome, a value or a thrown value.
\<close>

text \<open>
  The dynamically imported module \<open>@0glabs/0g-ts-sdk\<close>: its \<open>download\<close> when
  \<open>typeof mod.download === "function"\<close>, and whether \<open>typeof mod.StorageClient\<close>
  is \<open>"function"\<close>.
\<close>

record sdk_module =
  sdk_download :: "(string \<Rightarrow> exn + string) option"
  StorageClient_is_function :: bool

text \<open>
  A \<open>Response\<close> of the Fetch API: its status and the outcome of \<open>res.text()\<close>.
  \<open>res.ok\<close> is the Fetch API's reading of the status: 200 to 299.
\<close>

record response =
  status :: nat
  text_body :: "exn + string"

definition ok :: "response \<Rightarrow> bool" where
  "ok res = (200 \<le> status res \<and> status res \<le> 299)"

text \<open>
  The \<open>window\<close> object: \<open>OGStorage\<close> is \<open>Some dl\<close> when \<open>window.OGStorage\<close> is
  truthy and its \<open>download\<close> is a function, \<open>dl\<close> being that function; \<open>atob\<close>
  returns the binary string or throws.
\<close>

record window =
  OGStorage :: "(string \<Rightarrow> exn + string) option"
  atob :: "string \<Rightarrow> exn + string"

text \<open>The signer of ethers and the WalletConnect provider, as far as the viewer calls them.\<close>

datatype signer = Signer (signMessage: "string \<Rightarrow> exn + string") (getAddress: "exn + string")

datatype provider = Provider (disconnect_fn: "(exn + unit) option")

text \<open>
  \<open>'k\<close> is the type of the platform's \<open>CryptoKey\<close> handles. \<open>clock\<close> gives the
  successive readings of the system clock (milliseconds), \<open>toLocaleTimeString\<close> the
  local time text of a reading. \<open>window\<close> is \<open>None\<close> when
  \<open>typeof window === "undefined"\<close>. \<open>String_trim\<close> is the platform's
  \<open>String.prototype.trim\<close>, which removes the white space and the line terminators
  of ECMAScript at both ends.
\<close>

record 'k env =
  clock :: "nat \<Rightarrow> nat"
  toLocaleTimeString :: "nat \<Rightarrow> string"
  window :: "window option"
  import_0g_sdk :: "exn + sdk_module"
  fetch :: "string \<Rightarrow> exn + response"
  TextEncoder_encode :: "string \<Rightarrow> byte list"
  String_trim :: "string \<Rightarrow> string"
  subtle_digest :: "string \<Rightarrow> byte list \<Rightarrow> exn + byte list"
  subtle_importKey :: "string \<Rightarrow> byte list \<Rightarrow> string \<Rightarrow> bool \<Rightarrow> string list \<Rightarrow> exn + 'k"
  subtle_decrypt :: "string \<Rightarrow> byte list \<Rightarrow> 'k \<Rightarrow> byte list \<Rightarrow> exn + byte list"
  wc_enable :: "exn + provider"
  wc_getSigner :: "signer"

text \<open>The calls the viewer makes to the outside, with their arguments.\<close>

datatype 'k call =
    CallSignMessage string
  | CallOGStorageDownload string
  | CallImportSdk
  | CallSdkDownload string
  | CallFetch string
  | CallAtob string
  | CallDigest string "byte list"
  | CallImportKey string "byte list" string bool "string list"
  | CallDecrypt string "byte list" 'k "byte list"
  | CallSaveFile string "byte list"
  | CallConsoleError exn
  | CallWcEnable
  | CallGetAddress
  | CallDisconnect

text \<open>
  The state of the component (\<open>useState\<close>), and two fields that record the run:
  \<open>calls\<close>, the outside calls made so far in order, and \<open>clock_reads\<close>, how many
  times the clock has been read.
\<close>

record 'k app_state =
  connectedAddress :: "string option"
  provider :: "provider option"
  signer :: "signer option"
  logs :: "string list"
  storageGateway :: string
  calls :: "'k call list"
  clock_reads :: nat

definition initial_state :: "'k app_state" where
  "initial_state =
     \<lparr>connectedAddress = None, provider = None, signer = None, logs = [],
      storageGateway = DEFAULT_STORAGE_GATEWAY, calls = [], clock_reads = 0\<rparr>"

subsection \<open>Asynchronous functions: a state, then a value or a thrown value\<close>

type_synonym ('k, 'a) act = "'k app_state \<Rightarrow> (exn + 'a) \<times> 'k app_state"

definition ret :: "'a \<Rightarrow> ('k, 'a) act" where
  "ret x = (\<lambda>st. (Inr x, st))"

definition throw :: "exn \<Rightarrow> ('k, 'a) act" where
  "throw e = (\<lambda>st. (Inl e, st))"

definition andThen :: "('k, 'a) act \<Rightarrow> ('a \<Rightarrow> ('k, 'b) act) \<Rightarrow> ('k, 'b) act" where
  "andThen m f = (\<lambda>st. case m st of (Inl e, st') \<Rightarrow> (Inl e, st') | (Inr x, st') \<Rightarrow> f x st')"

text \<open>\<open>try { m } catch (err) { h err }\<close>\<close>

definition tryCatch :: "('k, 'a) act \<Rightarrow> (exn \<Rightarrow> ('k, 'a) act) \<Rightarrow> ('k, 'a) act" where
  "tryCatch m h = (\<lambda>st. case m st of (Inl e, st') \<Rightarrow> h e st' | (Inr x, st') \<Rightarrow> (Inr x, st'))"

text \<open>An outside call: it is recorded, and its outcome is the value or the exception.\<close>

definition outside :: "'k call \<Rightarrow> exn + 'a \<Rightarrow> ('k, 'a) act" where
  "outside c r = (\<lambda>st. (r, st\<lparr>calls := calls st @ [c]\<rparr>))"

text \<open>\<open>Date.now()\<close> and \<open>new Date()\<close> read the clock.\<close>

definition read_clock :: "'k env \<Rightarrow> ('k, nat) act" where
  "read_clock env = (\<lambda>st. (Inr (clock env (clock_reads st)), st\<lparr>clock_reads := Suc (clock_reads st)\<rparr>))"

subsection \<open>The log\<close>

text \<open>The em dash of the log texts (its UTF-8 bytes), and the separator of a log line.\<close>

definition em_dash :: string where
  "em_dash = [CHR 0xE2, CHR 0x80, CHR 0x94]"

definition log_sep :: string where
  "log_sep = '' '' @ em_dash @ '' ''"

text \<open>
  \<open>[entry, ...l].slice(0, 200)\<close>, the update function that \<open>addLog\<close> gives to
  \<open>setLogs\<close>.
\<close>

definition push_log :: "string \<Rightarrow> string list \<Rightarrow> string list" where
  "push_log entry l = take 200 (entry # l)"

definition addLog :: "'k env \<Rightarrow> string \<Rightarrow> ('k, unit) act" where
  "addLog env msg =
     andThen (read_clock env) (\<lambda>t st.
       (Inr (), st\<lparr>logs := push_log (toLocaleTimeString env t @ log_sep @ msg) (logs st)\<rparr>))"

section \<open>The viewer's functions\<close>

subsection \<open>Connecting and disconnecting\<close>

definition connectWalletConnect :: "'k env \<Rightarrow> ('k, unit) act" where
  "connectWalletConnect env =
     tryCatch
       (andThen (addLog env ''Opening WalletConnect...'') (\<lambda>_.
        andThen (outside CallWcEnable (wc_enable env)) (\<lambda>wcProvider.
        andThen (outside CallGetAddress (getAddress (wc_getSigner env))) (\<lambda>a.
        andThen (\<lambda>st. (Inr (), st\<lparr>provider := Some wcProvider, signer := Some (wc_getSigner env),
                                   connectedAddress := Some (toLowerCase a)\<rparr>)) (\<lambda>_.
        addLog env (''Connected: '' @ toLowerCase a))))))
       (\<lambda>err.
        andThen (outside (CallConsoleError err) (Inr ())) (\<lambda>_.
        addLog env (''Connection failed: '' @ exn_text err)))"

definition disconnect :: "'k env \<Rightarrow> ('k, unit) act" where
  "disconnect env =
     andThen (\<lambda>st. case provider st of
                 Some (Provider (Some d)) \<Rightarrow>
                   tryCatch (outside CallDisconnect d) (\<lambda>_. ret ()) st
               | _ \<Rightarrow> (Inr (), st)) (\<lambda>_.
     andThen (\<lambda>st. (Inr (), st\<lparr>provider := None, signer := None, connectedAddress := None\<rparr>)) (\<lambda>_.
     addLog env ''Disconnected''))"

subsection \<open>Fetching the payload\<close>

text \<open>
  The inner \<open>try\<close> of \<open>fetchCidBase64\<close>: the dynamic import and what follows it.
  \<open>Some b64\<close> is the \<open>return b64\<close> inside it; \<open>None\<close> is reaching its end.
\<close>

definition sdk_attempt :: "'k env \<Rightarrow> string \<Rightarrow> ('k, string option) act" where
  "sdk_attempt env cid =
     andThen (outside CallImportSdk (import_0g_sdk env)) (\<lambda>sdk.
       case sdk_download sdk of
         Some dl \<Rightarrow>
           andThen (outside (CallSdkDownload cid) (dl cid)) (\<lambda>b64.
           andThen (addLog env ''Fetched via @0glabs/0g-ts-sdk.download'') (\<lambda>_.
           ret (Some b64)))
       | None \<Rightarrow>
           if StorageClient_is_function sdk
           then andThen (addLog env ''0g SDK loaded but no known download method found. Falling back to gateway.'')
                  (\<lambda>_. ret None)
           else ret None)"

text \<open>The fallback to the HTTP gateway, from \<open>if (!storageGateway)\<close> on.\<close>

definition gateway_url :: "string \<Rightarrow> string \<Rightarrow> string" where
  "gateway_url gw cid =
     (let normalized = normalizeCid cid
      in if endsWith gw ''/'' then gw @ normalized else gw @ ''/'' @ normalized)"

definition gateway_attempt :: "'k env \<Rightarrow> string \<Rightarrow> ('k, string) act" where
  "gateway_attempt env cid = (\<lambda>st.
     if storageGateway st = []
     then throw (Error ''No storage gateway configured and 0g SDK not available.'') st
     else
       (let url = gateway_url (storageGateway st) cid
        in andThen (outside (CallFetch url) (fetch env url)) (\<lambda>res.
             if \<not> ok res
             then throw (Error (''Gateway fetch failed: '' @ show_nat (status res)))
             else andThen (\<lambda>st'. (text_body res, st')) (\<lambda>txt.
                  andThen (addLog env ''Fetched via HTTP gateway'') (\<lambda>_.
                  ret (String_trim env txt))))) st)"

text \<open>
  The body of the outer \<open>try\<close>. Reading \<open>window.OGStorage\<close> where there is no
  \<open>window\<close> throws a ReferenceError.
\<close>

definition fetch_body :: "'k env \<Rightarrow> string \<Rightarrow> ('k, string) act" where
  "fetch_body env cid =
     (case window env of
        None \<Rightarrow> throw (Error ''window is not defined'')
      | Some w \<Rightarrow>
          (case OGStorage w of
             Some dl \<Rightarrow>
               andThen (outside (CallOGStorageDownload cid) (dl cid)) (\<lambda>b64.
               andThen (addLog env ''Fetched via global OGStorage'') (\<lambda>_.
               ret b64))
           | None \<Rightarrow>
               andThen (tryCatch (sdk_attempt env cid) (\<lambda>e. ret None)) (\<lambda>r.
                 case r of Some b64 \<Rightarrow> ret b64 | None \<Rightarrow> gateway_attempt env cid)))"

definition fetchCidBase64 :: "'k env \<Rightarrow> string \<Rightarrow> ('k, string) act" where
  "fetchCidBase64 env cid =
     andThen (addLog env (''Fetching CID: '' @ cid)) (\<lambda>_.
     tryCatch (fetch_body env cid) (\<lambda>err.
       andThen (addLog env (''Fetch error: '' @ exn_text err)) (\<lambda>_.
       throw err)))"

subsection \<open>Deriving the key and decrypting\<close>

text \<open>
  \<open>base64ToBytes\<close>: the loop stores \<open>charCodeAt(i)\<close> at index \<open>i\<close> for each
  character of the binary string, in a \<open>Uint8Array\<close> (which keeps the low 8 bits).
\<close>

primrec char_codes :: "string \<Rightarrow> byte list" where
  "char_codes [] = []"
| "char_codes (c # cs) = (of_nat (of_char c) :: byte) # char_codes cs"

definition base64ToBytes :: "'k env \<Rightarrow> string \<Rightarrow> ('k, byte list) act" where
  "base64ToBytes env base64 =
     (case window env of
        None \<Rightarrow> throw (Error ''Browser required'')
      | Some w \<Rightarrow>
          andThen (outside (CallAtob base64) (atob w base64)) (\<lambda>binaryString.
          ret (char_codes binaryString)))"

definition deriveKeyFromSignature :: "'k env \<Rightarrow> string \<Rightarrow> ('k, 'k) act" where
  "deriveKeyFromSignature env signature =
     (let sigBytes = TextEncoder_encode env signature
      in andThen (outside (CallDigest ''SHA-256'' sigBytes) (subtle_digest env ''SHA-256'' sigBytes)) (\<lambda>hash.
         andThen (outside (CallImportKey ''raw'' hash ''AES-GCM'' False [''decrypt''])
                    (subtle_importKey env ''raw'' hash ''AES-GCM'' False [''decrypt''])) (\<lambda>key.
         ret key)))"

definition decryptBase64Payload :: "'k env \<Rightarrow> string \<Rightarrow> 'k \<Rightarrow> ('k, byte list) act" where
  "decryptBase64Payload env base64 key =
     andThen (base64ToBytes env base64) (\<lambda>bytes.
       if length bytes \<le> 12 then throw (Error ''Payload too short'')
       else
         (let iv = take 12 bytes; ciphertext = drop 12 bytes
          in andThen (outside (CallDecrypt ''AES-GCM'' iv key ciphertext)
                        (subtle_decrypt env ''AES-GCM'' iv key ciphertext)) (\<lambda>plain.
             ret plain)))"

subsection \<open>The download action\<close>

text \<open>The \<open>try\<close> block of \<open>handleDownload\<close>, run with the signer \<open>sg\<close>.\<close>

definition download_steps :: "'k env \<Rightarrow> signer \<Rightarrow> token \<Rightarrow> ('k, unit) act" where
  "download_steps env sg tok =
     andThen (read_clock env) (\<lambda>now.
     let challenge = ''0g-download:'' @ tokenId tok @ '':'' @ show_nat now in
     andThen (addLog env ''Signing challenge...'') (\<lambda>_.
     andThen (outside (CallSignMessage challenge) (signMessage sg challenge)) (\<lambda>signature.
     andThen (addLog env ''Signature obtained. Deriving key...'') (\<lambda>_.
     andThen (deriveKeyFromSignature env signature) (\<lambda>key.
     andThen (addLog env ''Fetching encrypted payload (base64)...'') (\<lambda>_.
     andThen (fetchCidBase64 env (storageCid tok)) (\<lambda>b64.
     andThen (addLog env ''Decrypting...'') (\<lambda>_.
     andThen (decryptBase64Payload env b64 key) (\<lambda>plainBytes.
     andThen (outside (CallSaveFile (if fileName tok = [] then ''download.bin'' else fileName tok) plainBytes)
                (Inr ())) (\<lambda>_.
     addLog env (''Download complete: '' @ fileName tok)))))))))))"

definition handleDownload :: "'k env \<Rightarrow> token \<Rightarrow> ('k, unit) act" where
  "handleDownload env tok = (\<lambda>st.
     case (signer st, connectedAddress st) of
       (Some sg, Some addr) \<Rightarrow>
         if addr = [] then addLog env ''Connect wallet first'' st
         else if toLowerCase addr \<noteq> OWNER_ADDRESS
         then addLog env (''Connected address does not match owner '' @ em_dash @ '' download not allowed'') st
         else if storageCid tok = []
         then addLog env ''No storage CID for this token. Fill it in code or metadata.'' st
         else
           tryCatch (download_steps env sg tok) (\<lambda>err.
             andThen (outside (CallConsoleError err) (Inr ())) (\<lambda>_.
             addLog env (''Download/decrypt failed: '' @ exn_text err))) st
     | _ \<Rightarrow> addLog env ''Connect wallet first'' st)"

section \<open>The IPFS proxy\<close>

text \<open>
  \<open>a || b\<close> where \<open>a\<close> is a string or absent (\<open>null\<close>, \<open>undefined\<close>): the
  absent and the empty string are falsy.
\<close>

definition or_else :: "string option \<Rightarrow> string \<Rightarrow> string" where
  "or_else a b = (case a of None \<Rightarrow> b | Some s \<Rightarrow> if s = [] then b else s)"

text \<open>
  The response of node-fetch as the route reads it: \<open>r.headers.get('content-type')\<close>
  (\<open>None\<close> is \<open>null\<close>) and the outcome of \<open>r.buffer()\<close>. node-fetch resolves on any
  HTTP status; it rejects when the request itself fails.
\<close>

record upstream =
  upstream_status :: nat
  upstream_content_type :: "string option"
  buffer :: "exn + byte list"

text \<open>
  Express is not code of the proxy either. \<open>express_content_type\<close> is what
  \<open>res.set('content-type', v)\<close> stores in the header for a value \<open>v\<close>: Express may
  add a charset parameter to it.
\<close>

record proxy_env =
  IPFS_GATEWAY :: "string option"
  node_fetch :: "string \<Rightarrow> exn + upstream"
  express_content_type :: "string \<Rightarrow> string"

definition GATEWAY :: "proxy_env \<Rightarrow> string" where
  "GATEWAY env = or_else (IPFS_GATEWAY env) ''https://ipfs.io/ipfs/''"

text \<open>
  The Express response object, as far as the route drives it: the status code (200
  until \<open>res.status\<close> changes it), the Content-Type header stored by the route's
  call of \<open>res.set\<close> (\<open>None\<close> when the route has not called it), and what
  \<open>res.send\<close> was given.
\<close>

datatype sent = Buffer "byte list" | Text string

record res =
  statusCode :: nat
  content_type_set :: "string option"
  body :: "sent option"

definition new_res :: res where
  "new_res = \<lparr>statusCode = 200, content_type_set = None, body = None\<rparr>"

definition res_status :: "nat \<Rightarrow> res \<Rightarrow> res" where
  "res_status n r = r\<lparr>statusCode := n\<rparr>"

definition res_set_content_type :: "proxy_env \<Rightarrow> string \<Rightarrow> res \<Rightarrow> res" where
  "res_set_content_type env v r = r\<lparr>content_type_set := Some (express_content_type env v)\<rparr>"

definition res_send :: "sent \<Rightarrow> res \<Rightarrow> res" where
  "res_send b r = r\<lparr>body := Some b\<rparr>"

text \<open>The \<open>try\<close> block of the route \<open>GET /ipfs/:cid\<close>, then the route with its \<open>catch\<close>.\<close>

definition relay :: "proxy_env \<Rightarrow> string \<Rightarrow> res \<Rightarrow> exn + res" where
  "relay env cid rs =
     (let url = GATEWAY env @ cid
      in case node_fetch env url of
           Inl err \<Rightarrow> Inl err
         | Inr r \<Rightarrow>
             (case buffer r of
                Inl err \<Rightarrow> Inl err
              | Inr b \<Rightarrow>
                  Inr (res_send (Buffer b)
                        (res_set_content_type env
                           (or_else (upstream_content_type r) ''application/octet-stream'') rs))))"

definition ipfs_route :: "proxy_env \<Rightarrow> string \<Rightarrow> res" where
  "ipfs_route env cid =
     (case relay env cid new_res of
        Inr rs \<Rightarrow> rs
      | Inl err \<Rightarrow> res_send (Text ''Proxy error'') (res_status 500 new_res))"

section \<open>The fetch as a choice among three sources\<close>

text \<open>
  The three sources of a payload, each as a function of the identifier: the injected
  client, the download function of the imported SDK, and a GET on a gateway URL whose
  body is read as text and trimmed by the platform.
\<close>

definition global_source :: "window \<Rightarrow> string \<Rightarrow> exn + string" where
  "global_source w cid =
     (case OGStorage w of Some dl \<Rightarrow> dl cid | None \<Rightarrow> Inl (Error ''no global storage client''))"

definition sdk_source :: "'k env \<Rightarrow> string \<Rightarrow> exn + string" where
  "sdk_source env cid =
     (case import_0g_sdk env of
        Inl e \<Rightarrow> Inl e
      | Inr sdk \<Rightarrow>
          (case sdk_download sdk of Some dl \<Rightarrow> dl cid | None \<Rightarrow> Inl (Error ''no download function'')))"

definition http_get_text :: "'k env \<Rightarrow> string \<Rightarrow> exn + string" where
  "http_get_text env url =
     (case fetch env url of
        Inl e \<Rightarrow> Inl e
      | Inr res \<Rightarrow>
          if \<not> ok res then Inl (Error (''Gateway fetch failed: '' @ show_nat (status res)))
          else (case text_body res of Inl e \<Rightarrow> Inl e | Inr txt \<Rightarrow> Inr (String_trim env txt)))"

text \<open>
  The reading "tried in order until one succeeds or all fail": the first success of the
  list, and the last failure when there is none. The gateway URL is the base URL
  concatenated with the normalised identifier.
\<close>

fun first_success :: "exn \<Rightarrow> (exn + 'a) list \<Rightarrow> exn + 'a" where
  "first_success e [] = Inl e"
| "first_success e (Inr x # rs) = Inr x"
| "first_success e (Inl e' # rs) = first_success e' rs"

definition fetch_in_order_spec :: "window \<Rightarrow> 'k env \<Rightarrow> string \<Rightarrow> string \<Rightarrow> exn + string" where
  "fetch_in_order_spec w env gw cid =
     first_success (Error ''no source'')
       [global_source w cid, sdk_source env cid, http_get_text env (gw @ normalizeCid cid)]"

text \<open>
  The choice by availability: the injected client when there is one, and then its
  outcome is final; otherwise the SDK's download when it succeeds; otherwise the
  gateway, which must be configured. With it, the outside calls made, in order.
\<close>

definition gateway_source :: "'k env \<Rightarrow> string \<Rightarrow> string \<Rightarrow> exn + string" where
  "gateway_source env gw cid =
     (if gw = [] then Inl (Error ''No storage gateway configured and 0g SDK not available.'')
      else http_get_text env (gateway_url gw cid))"

definition fetch_by_availability :: "window \<Rightarrow> 'k env \<Rightarrow> string \<Rightarrow> string \<Rightarrow> exn + string" where
  "fetch_by_availability w env gw cid =
     (case OGStorage w of
        Some dl \<Rightarrow> dl cid
      | None \<Rightarrow>
          (case sdk_source env cid of
             Inr b64 \<Rightarrow> Inr b64
           | Inl e \<Rightarrow> gateway_source env gw cid))"

definition fetch_calls :: "window \<Rightarrow> 'k env \<Rightarrow> string \<Rightarrow> string \<Rightarrow> 'k call list" where
  "fetch_calls w env gw cid =
     (case OGStorage w of
        Some dl \<Rightarrow> [CallOGStorageDownload cid]
      | None \<Rightarrow>
          CallImportSdk #
          (case import_0g_sdk env of
             Inl e \<Rightarrow> []
           | Inr sdk \<Rightarrow> (case sdk_download sdk of None \<Rightarrow> [] | Some dl \<Rightarrow> [CallSdkDownload cid])) @
          (case sdk_source env cid of
             Inr b64 \<Rightarrow> []
           | Inl e \<Rightarrow> if gw = [] then [] else [CallFetch (gateway_url gw cid)]))"

section \<open>A recorded run\<close>

text \<open>
  Concrete answers of the outside, for running the functions: a signature, the SHA-256
  of its text, a 12-byte nonce, the AES-256-GCM encryption of the five bytes of
  \<open>hello\<close> under that key and nonce (ciphertext, then the 16-byte tag), and the base64
  text of nonce and encryption. A key handle is the raw key. The gateway's body is the
  payload text with a final line feed, which \<open>trim\<close> removes; no other text of the run
  is trimmed.
\<close>

definition demo_signature :: string where
  "demo_signature =
     ''0xababababababababababababababababababababababababababababababababababababababababababababababababababababababababababababababababab''"

definition demo_key :: "byte list" where
  "demo_key =
     [0xF1, 0xD1, 0x04, 0xFE, 0xF8, 0x1B, 0x41, 0xD7, 0x82, 0x07, 0xD2, 0x9C, 0xE3, 0x63, 0x38, 0xF7,
      0x22, 0x22, 0x97, 0xE4, 0x47, 0x4F, 0x7E, 0x4C, 0x94, 0x68, 0x12, 0x92, 0x4D, 0xB3, 0x76, 0xA7]"

definition demo_nonce :: "byte list" where
  "demo_nonce = [0x00, 0x01, 0x02, 0x03, 0x04, 0x05, 0x06, 0x07, 0x08, 0x09, 0x0A, 0x0B]"

definition demo_sealed :: "byte list" where
  "demo_sealed =
     [0x5F, 0x78, 0x3A, 0x0B, 0xB1, 0x85, 0xF4, 0x20, 0xB3, 0xE1, 0xA5, 0x1E, 0xBD, 0x05, 0xFF, 0xA6,
      0x2F, 0x42, 0xCB, 0x59, 0xE1]"

definition demo_plain :: "byte list" where
  "demo_plain = [0x68, 0x65, 0x6C, 0x6C, 0x6F]"

definition demo_b64 :: string where
  "demo_b64 = ''AAECAwQFBgcICQoLX3g6C7GF9CCz4aUevQX/pi9Cy1nh''"

definition binary_string :: "byte list \<Rightarrow> string" where
  "binary_string bs = map (\<lambda>b. char_of (unat b)) bs"

definition demo_window :: "(string \<Rightarrow> exn + string) option \<Rightarrow> window" where
  "demo_window og =
     \<lparr>OGStorage = og,
      atob = (\<lambda>s. if s = demo_b64 then Inr (binary_string (demo_nonce @ demo_sealed))
                   else if s = ''AAECAwQFBgcICQoL'' then Inr (binary_string demo_nonce)
                   else Inl (Error ''InvalidCharacterError''))\<rparr>"

definition demo_signer :: signer where
  "demo_signer =
     Signer (\<lambda>challenge. Inr demo_signature) (Inr ''0x6F4D829488686afd8D9B68AE56986C312784C0e6'')"

definition demo_env ::
  "(string \<Rightarrow> exn + string) option \<Rightarrow> exn + sdk_module \<Rightarrow> (byte list) env" where
  "demo_env og sdk =
     \<lparr>clock = (\<lambda>n. 1700000000000 + 250 * n),
      toLocaleTimeString = (\<lambda>t. ''12:00:00''),
      window = Some (demo_window og),
      import_0g_sdk = sdk,
      fetch = (\<lambda>url. if url = ''https://gw.example/ab''
                       then Inr \<lparr>status = 200, text_body = Inr (demo_b64 @ [CHR 0x0A])\<rparr>
                       else Inr \<lparr>status = 404, text_body = Inr ''not found''\<rparr>),
      TextEncoder_encode = char_codes,
      String_trim = (\<lambda>s. if s = demo_b64 @ [CHR 0x0A] then demo_b64 else s),
      subtle_digest = (\<lambda>alg bs. if alg = ''SHA-256'' \<and> bs = char_codes demo_signature
                                 then Inr demo_key else Inl (Error ''NotSupportedError'')),
      subtle_importKey = (\<lambda>fmt raw alg ext us. Inr raw),
      subtle_decrypt = (\<lambda>alg iv key ct.
                          if alg = ''AES-GCM'' \<and> iv = demo_nonce \<and> key = demo_key \<and> ct = demo_sealed
                          then Inr demo_plain else Inl (Error ''OperationError'')),
      wc_enable = Inr (Provider None),
      wc_getSigner = demo_signer\<rparr>"

definition demo_state :: "string \<Rightarrow> (byte list) app_state" where
  "demo_state gw = initial_state\<lparr>storageGateway := gw\<rparr>"

definition demo_connected :: "string \<Rightarrow> string \<Rightarrow> (byte list) app_state" where
  "demo_connected addr gw =
     initial_state\<lparr>connectedAddress := Some addr, signer := Some demo_signer, storageGateway := gw\<rparr>"

definition demo_token :: token where
  "demo_token = \<lparr>tokenId = ''0x4884f459...02'', name = ''Passport'', storageCid = ''0xab'', fileName = ''hello.txt''\<rparr>"

text \<open>
  Express 4's rule for the content type given to \<open>res.set\<close> (with its mime 1.x): a
  value in which the pattern \<open>;\s*charset\s*=\<close> is found nowhere, and whose part before
  the first semicolon starts with \<open>text/\<close>, \<open>application/javascript\<close> or
  \<open>application/json\<close>, gets \<open>; charset=utf-8\<close> appended. Header values are Latin-1
  strings, a character for each code unit; the white space \<open>\s\<close> among those is tab,
  line feed, vertical tab, form feed, carriage return, space and no-break space.
\<close>

definition regex_space :: "char \<Rightarrow> bool" where
  "regex_space c = ((of_char c :: nat) \<in> {9, 10, 11, 12, 13, 32, 160})"

definition charset_at :: "string \<Rightarrow> bool" where
  "charset_at s =
     (case s of
        [] \<Rightarrow> False
      | c # r \<Rightarrow>
          c = CHR 0x3B \<and>
          (let r1 = dropWhile regex_space r
           in startsWith r1 ''charset'' \<and> startsWith (dropWhile regex_space (drop 7 r1)) ''=''))"

definition has_charset :: "string \<Rightarrow> bool" where
  "has_charset v = list_ex charset_at (suffixes v)"

definition mime_charset_utf8 :: "string \<Rightarrow> bool" where
  "mime_charset_utf8 t =
     (startsWith t ''text/'' \<or> startsWith t ''application/javascript''
      \<or> startsWith t ''application/json'')"

definition express4_content_type :: "string \<Rightarrow> string" where
  "express4_content_type v =
     (if \<not> has_charset v \<and> mime_charset_utf8 (takeWhile (\<lambda>c. c \<noteq> CHR 0x3B) v)
      then v @ ''; charset=utf-8'' else v)"

text \<open>Answers of the upstream gateway to the proxy, which runs on Express 4.\<close>

definition demo_upstream :: "string option \<Rightarrow> exn + byte list \<Rightarrow> upstream" where
  "demo_upstream ct b = \<lparr>upstream_status = 200, upstream_content_type = ct, buffer = b\<rparr>"

definition demo_proxy_env :: "exn + upstream \<Rightarrow> proxy_env" where
  "demo_proxy_env answer =
     \<lparr>IPFS_GATEWAY = None,
      node_fetch = (\<lambda>url. if url = ''https://ipfs.io/ipfs/QmTest'' then answer
                            else Inl (Error ''getaddrinfo ENOTFOUND'')),
      express_content_type = express4_content_type\<rparr>"

definition sdk_missing :: "exn + sdk_module" where
  "sdk_missing = Inl (Error ''Failed to resolve module specifier'')"

definition sdk_without_download :: "exn + sdk_module" where
  "sdk_without_download = Inr \<lparr>sdk_download = None, StorageClient_is_function = True\<rparr>"

definition unreachable_client :: "(string \<Rightarrow> exn + string) option" where
  "unreachable_client = Some (\<lambda>cid. Inl (Error ''storage node unreachable''))"

definition full_log :: "(byte list) app_state" where
  "full_log = initial_state\<lparr>logs := replicate 200 ''12:00:00 old''\<rparr>"

section \<open>The bound of the log as an invariant\<close>

definition keeps_bound :: "('k, 'a) act \<Rightarrow> bool" where
  "keeps_bound m = (\<forall>st. length (logs st) \<le> 200 \<longrightarrow> length (logs (snd (m st))) \<le> 200)"

section \<open>Running the combinators\<close>

lemma andThen_run:
  "andThen m f st = (case m st of (Inl e, st') \<Rightarrow> (Inl e, st') | (Inr x, st') \<Rightarrow> f x st')"
  by (simp add: andThen_def)

lemma tryCatch_run:
  "tryCatch m h st = (case m st of (Inl e, st') \<Rightarrow> h e st' | (Inr x, st') \<Rightarrow> (Inr x, st'))"
  by (simp add: tryCatch_def)

lemma ret_run: "ret x st = (Inr x, st)"
  by (simp add: ret_def)

lemma throw_run: "throw e st = (Inl e, st)"
  by (simp add: throw_def)

lemma outside_run: "outside c r st = (r, st\<lparr>calls := calls st @ [c]\<rparr>)"
  by (simp add: outside_def)

lemma push_log_eq: "push_log e l = e # take 199 l"
  by (simp add: push_log_def take_Cons')

lemma addLog_run:
  "addLog env msg st =
     (Inr (), st\<lparr>clock_reads := Suc (clock_reads st),
                logs := push_log (toLocaleTimeString env (clock env (clock_reads st)) @ log_sep @ msg) (logs st)\<rparr>)"
  by (simp add: addLog_def andThen_def read_clock_def)

lemmas run_simps = andThen_run tryCatch_run ret_run throw_run outside_run addLog_run

section \<open>Printing numbers\<close>

lemma show_nat_digit: "n < 10 \<Longrightarrow> show_nat n = [digit_char n]"
  by (simp add: show_nat.simps)

lemma show_nat_more: "10 \<le> n \<Longrightarrow> show_nat n = show_nat (n div 10) @ [digit_char (n mod 10)]"
  by (subst show_nat.simps) simp

lemma demo_challenge: "show_nat 1700000000000 = ''1700000000000''"
  by (simp add: show_nat_digit show_nat_more digit_char_def)

lemma demo_404: "show_nat 404 = ''404''"
  by (simp add: show_nat_digit show_nat_more digit_char_def)

section \<open>Facts of the recorded run\<close>

lemma demo_trim: "String_trim (demo_env og sdk) (demo_b64 @ [CHR 0x0A]) = demo_b64"
  by (simp add: demo_env_def)

lemma demo_owner: "OWNER_ADDRESS = ''0x6f4d829488686afd8d9b68ae56986c312784c0e6''"
  by code_simp

lemma demo_codes: "char_codes (binary_string (demo_nonce @ demo_sealed)) = demo_nonce @ demo_sealed"
  by code_simp

lemma demo_short_codes: "length (char_codes (binary_string demo_nonce)) = 12"
  by code_simp

lemma demo_url: "gateway_url ''https://gw.example'' ''0xab'' = ''https://gw.example/ab''"
  by code_simp

lemma demo_window_env: "window (demo_env og sdk) = Some (demo_window og)"
  by (simp add: demo_env_def)

lemma demo_atob: "atob (demo_window og) demo_b64 = Inr (binary_string (demo_nonce @ demo_sealed))"
  by (simp add: demo_window_def)

lemma demo_atob_short: "atob (demo_window og) ''AAECAwQFBgcICQoL'' = Inr (binary_string demo_nonce)"
  by (simp add: demo_window_def demo_b64_def)

lemma demo_decrypt:
  "subtle_decrypt (demo_env og sdk) ''AES-GCM'' demo_nonce demo_key demo_sealed = Inr demo_plain"
  by (simp add: demo_env_def)

lemma demo_digest:
  "subtle_digest (demo_env og sdk) ''SHA-256'' (TextEncoder_encode (demo_env og sdk) demo_signature)
     = Inr demo_key"
  by (simp add: demo_env_def)

lemma demo_state_fields:
  "calls (demo_state gw) = []" "storageGateway (demo_state gw) = gw" "logs (demo_state gw) = []"
  by (simp_all add: demo_state_def initial_state_def)

section \<open>Identifier normalisation\<close>

lemma startsWith_0x: "startsWith s ''0x'' = prefix ''0x'' s"
  unfolding startsWith_def
  by (metis append_eq_conv_conj prefix_def length_Cons list.size(3) take_is_prefix)

text \<open>
  C6. A string that starts with \<open>0x\<close> loses that prefix once: what follows it is
  returned as it is, also when it starts with \<open>0x\<close> again. A string that does not start
  with \<open>0x\<close> is returned unchanged.
\<close>

theorem normalizeCid_strips_one_prefix:
  "normalizeCid (''0x'' @ s) = s \<and> (\<not> prefix ''0x'' cid \<longrightarrow> normalizeCid cid = cid)"
  by (simp add: normalizeCid_def startsWith_0x slice_from_def)

theorem normalizeCid_strips_one_prefix_witness:
  "normalizeCid ''0x0xab'' = ''0xab'' \<and> \<not> prefix ''0x'' ''abc'' \<and> normalizeCid ''abc'' = ''abc''"
  using normalizeCid_strips_one_prefix [of "''0xab''" "''abc''"] by simp

section \<open>The proxy\<close>

text \<open>
  C7. When the upstream fetch fails, that is when \<open>fetch\<close> rejects or reading the body
  rejects, the reply of the route has status 500 and the text \<open>Proxy error\<close>, whatever
  the failure was.
\<close>

theorem proxy_error_on_upstream_failure:
  assumes "node_fetch env (GATEWAY env @ cid) = Inl e
           \<or> (\<exists>r. node_fetch env (GATEWAY env @ cid) = Inr r \<and> buffer r = Inl e)"
  shows "ipfs_route env cid
           = \<lparr>statusCode = 500, content_type_set = None, body = Some (Text ''Proxy error'')\<rparr>"
  using assms
  by (auto simp: ipfs_route_def relay_def new_res_def res_send_def res_status_def)

theorem proxy_error_on_upstream_failure_witness:
  "node_fetch (demo_proxy_env (Inl (Error ''connect ECONNREFUSED''))) (GATEWAY (demo_proxy_env (Inl (Error ''connect ECONNREFUSED''))) @ ''QmTest'')
     = Inl (Error ''connect ECONNREFUSED'')
   \<and> ipfs_route (demo_proxy_env (Inl (Error ''connect ECONNREFUSED''))) ''QmTest''
       = \<lparr>statusCode = 500, content_type_set = None, body = Some (Text ''Proxy error'')\<rparr>
   \<and> buffer (demo_upstream (Some ''image/png'') (Inl (Error ''Premature close''))) = Inl (Error ''Premature close'')
   \<and> ipfs_route (demo_proxy_env (Inr (demo_upstream (Some ''image/png'') (Inl (Error ''Premature close''))))) ''QmTest''
       = \<lparr>statusCode = 500, content_type_set = None, body = Some (Text ''Proxy error'')\<rparr>"
proof -
  have a: "node_fetch (demo_proxy_env answer) (GATEWAY (demo_proxy_env answer) @ ''QmTest'') = answer"
    for answer
    by (simp add: demo_proxy_env_def GATEWAY_def or_else_def)
  have b: "buffer (demo_upstream ct r) = r" for ct r
    by (simp add: demo_upstream_def)
  show ?thesis
    using proxy_error_on_upstream_failure
            [of "demo_proxy_env (Inl (Error ''connect ECONNREFUSED''))" "''QmTest''" "Error ''connect ECONNREFUSED''"]
          proxy_error_on_upstream_failure
            [of "demo_proxy_env (Inr (demo_upstream (Some ''image/png'') (Inl (Error ''Premature close''))))"
                "''QmTest''" "Error ''Premature close''"]
    by (simp add: a b)
qed

lemma demo_proxy_fetch:
  "node_fetch (demo_proxy_env answer) (GATEWAY (demo_proxy_env answer) @ ''QmTest'') = answer"
  by (simp add: demo_proxy_env_def GATEWAY_def or_else_def)

lemma demo_upstream_fields:
  "buffer (demo_upstream ct r) = r" "upstream_content_type (demo_upstream ct r) = ct"
  by (simp_all add: demo_upstream_def)

lemma demo_express:
  "express_content_type (demo_proxy_env answer) = express4_content_type"
  by (simp add: demo_proxy_env_def)

lemma express4_values:
  "express4_content_type ''text/plain'' = ''text/plain; charset=utf-8''"
  "express4_content_type ''text/html; charset=iso-8859-1'' = ''text/html; charset=iso-8859-1''"
  "express4_content_type ''application/json'' = ''application/json; charset=utf-8''"
  "express4_content_type ''image/png'' = ''image/png''"
  "express4_content_type ''application/octet-stream'' = ''application/octet-stream''"
  by code_simp+

lemma ipfs_route_relayed:
  assumes "node_fetch env (GATEWAY env @ cid) = Inr r" and "buffer r = Inr b"
  shows "ipfs_route env cid =
           \<lparr>statusCode = 200,
            content_type_set =
              Some (express_content_type env
                      (or_else (upstream_content_type r) ''application/octet-stream'')),
            body = Some (Buffer b)\<rparr>"
  using assms
  by (simp add: ipfs_route_def relay_def new_res_def res_send_def res_set_content_type_def)

text \<open>
  C8, as the claim states it, fails, in two ways. An upstream that provides the empty
  content type gets \<open>application/octet-stream\<close> in the reply, not its own header. And
  on Express 4 an upstream that provides \<open>text/plain\<close> gets
  \<open>text/plain; charset=utf-8\<close> in the reply: \<open>res.set\<close> adds the charset.
\<close>

theorem proxy_content_type_counterexample:
  "upstream_content_type (demo_upstream (Some []) (Inr [0x68, 0x69])) = Some []
   \<and> content_type_set (ipfs_route (demo_proxy_env (Inr (demo_upstream (Some []) (Inr [0x68, 0x69])))) ''QmTest'')
       = Some ''application/octet-stream''
   \<and> upstream_content_type (demo_upstream (Some ''text/plain'') (Inr [0x68, 0x69])) = Some ''text/plain''
   \<and> content_type_set (ipfs_route (demo_proxy_env (Inr (demo_upstream (Some ''text/plain'') (Inr [0x68, 0x69])))) ''QmTest'')
       = Some ''text/plain; charset=utf-8''"
  using ipfs_route_relayed [OF demo_proxy_fetch demo_upstream_fields(1), of "Some []" "[0x68, 0x69]"]
        ipfs_route_relayed [OF demo_proxy_fetch demo_upstream_fields(1), of "Some ''text/plain''" "[0x68, 0x69]"]
  by (simp add: demo_upstream_fields demo_express express4_values or_else_def)

text \<open>
  C8, amended. For every upstream response whose body is read, the route leaves the
  status at 200, gives the body read to \<open>res.send\<close>, and sets the content type of the
  reply by \<open>res.set\<close>: to the upstream's content type when the upstream provides a
  non-empty one, and to \<open>application/octet-stream\<close> when it provides none or the empty
  one. The header then stored is what Express's \<open>res.set\<close> makes of that value (it
  may add a charset).
\<close>

theorem proxy_content_type:
  assumes "node_fetch env (GATEWAY env @ cid) = Inr r" and "buffer r = Inr b"
  shows "ipfs_route env cid =
           \<lparr>statusCode = 200,
            content_type_set =
              Some (express_content_type env
                      (case upstream_content_type r of
                         None \<Rightarrow> ''application/octet-stream''
                       | Some ct \<Rightarrow> if ct = [] then ''application/octet-stream'' else ct)),
            body = Some (Buffer b)\<rparr>"
  using assms
  by (auto simp: ipfs_route_def relay_def new_res_def res_send_def res_set_content_type_def
        or_else_def split: option.splits)

theorem proxy_content_type_witness:
  "node_fetch (demo_proxy_env (Inr (demo_upstream (Some ''text/plain'') (Inr [0x68, 0x69]))))
              (GATEWAY (demo_proxy_env (Inr (demo_upstream (Some ''text/plain'') (Inr [0x68, 0x69])))) @ ''QmTest'')
     = Inr (demo_upstream (Some ''text/plain'') (Inr [0x68, 0x69]))
   \<and> buffer (demo_upstream (Some ''text/plain'') (Inr [0x68, 0x69])) = Inr [0x68, 0x69]
   \<and> ipfs_route (demo_proxy_env (Inr (demo_upstream (Some ''text/plain'') (Inr [0x68, 0x69])))) ''QmTest''
       = \<lparr>statusCode = 200, content_type_set = Some ''text/plain; charset=utf-8'',
          body = Some (Buffer [0x68, 0x69])\<rparr>
   \<and> ipfs_route (demo_proxy_env (Inr (demo_upstream (Some ''image/png'') (Inr [0x89, 0x50])))) ''QmTest''
       = \<lparr>statusCode = 200, content_type_set = Some ''image/png'', body = Some (Buffer [0x89, 0x50])\<rparr>
   \<and> ipfs_route (demo_proxy_env (Inr (demo_upstream None (Inr [0x89, 0x50])))) ''QmTest''
       = \<lparr>statusCode = 200, content_type_set = Some ''application/octet-stream'',
          body = Some (Buffer [0x89, 0x50])\<rparr>"
  using proxy_content_type [OF demo_proxy_fetch demo_upstream_fields(1), of "Some ''text/plain''" "[0x68, 0x69]"]
        proxy_content_type [OF demo_proxy_fetch demo_upstream_fields(1), of "Some ''image/png''" "[0x89, 0x50]"]
        proxy_content_type [OF demo_proxy_fetch demo_upstream_fields(1), of None "[0x89, 0x50]"]
  by (simp add: demo_proxy_fetch demo_upstream_fields demo_express express4_values)

section \<open>Decryption\<close>

lemma base64ToBytes_run:
  "window env = Some w \<Longrightarrow>
   base64ToBytes env b64 st =
     (case atob w b64 of Inl e \<Rightarrow> Inl e | Inr bin \<Rightarrow> Inr (char_codes bin),
      st\<lparr>calls := calls st @ [CallAtob b64]\<rparr>)"
  by (simp add: base64ToBytes_def run_simps split: sum.splits)

text \<open>
  C1. Let the payload text decode (\<open>atob\<close>) to the bytes of a 12-byte nonce followed
  by a non-empty encryption (an AES-GCM ciphertext with its tag is at least 16 bytes),
  and let the platform's AES-GCM decryption of that encryption under the key and the
  nonce give the plaintext, as it does for what was encrypted under the same key and
  nonce. Then \<open>decryptBase64Payload\<close> returns exactly the plaintext: it hands the first
  12 bytes as nonce and the rest as ciphertext to the platform, with that key.
\<close>

theorem decrypt_round_trip:
  assumes "window env = Some w"
    and "atob w b64 = Inr bin" and "char_codes bin = nonce @ sealed"
    and "length nonce = 12" and "sealed \<noteq> []"
    and "subtle_decrypt env ''AES-GCM'' nonce key sealed = Inr plaintext"
  shows "fst (decryptBase64Payload env b64 key st) = Inr plaintext
         \<and> calls (snd (decryptBase64Payload env b64 key st))
             = calls st @ [CallAtob b64, CallDecrypt ''AES-GCM'' nonce key sealed]"
  using assms by (simp add: decryptBase64Payload_def base64ToBytes_run run_simps Let_def)

theorem decrypt_round_trip_witness:
  "window (demo_env None sdk_missing) = Some (demo_window None)
   \<and> atob (demo_window None) demo_b64 = Inr (binary_string (demo_nonce @ demo_sealed))
   \<and> char_codes (binary_string (demo_nonce @ demo_sealed)) = demo_nonce @ demo_sealed
   \<and> length demo_nonce = 12 \<and> demo_sealed \<noteq> []
   \<and> subtle_decrypt (demo_env None sdk_missing) ''AES-GCM'' demo_nonce demo_key demo_sealed = Inr demo_plain
   \<and> fst (decryptBase64Payload (demo_env None sdk_missing) demo_b64 demo_key (demo_state [])) = Inr demo_plain
   \<and> calls (snd (decryptBase64Payload (demo_env None sdk_missing) demo_b64 demo_key (demo_state [])))
       = [CallAtob demo_b64, CallDecrypt ''AES-GCM'' demo_nonce demo_key demo_sealed]"
proof -
  have n: "length demo_nonce = 12" by (simp add: demo_nonce_def)
  have s: "demo_sealed \<noteq> []" by (simp add: demo_sealed_def)
  show ?thesis
    using decrypt_round_trip [OF demo_window_env demo_atob demo_codes n s demo_decrypt,
            of None sdk_missing "demo_state []"]
          n s demo_window_env [of None sdk_missing] demo_atob [of None] demo_codes
          demo_decrypt [of None sdk_missing]
    by (simp add: demo_state_fields)
qed

text \<open>
  C2. When the payload text decodes to at most 12 bytes, \<open>decryptBase64Payload\<close> throws
  the error \<open>Payload too short\<close>, and the only outside call it has made is \<open>atob\<close>: the
  AES-GCM decryption is not called.
\<close>

theorem short_payload_rejected:
  assumes "window env = Some w" and "atob w b64 = Inr bin" and "length (char_codes bin) \<le> 12"
  shows "fst (decryptBase64Payload env b64 key st) = Inl (Error ''Payload too short'')
         \<and> calls (snd (decryptBase64Payload env b64 key st)) = calls st @ [CallAtob b64]"
  using assms by (simp add: decryptBase64Payload_def base64ToBytes_run run_simps)

theorem short_payload_rejected_witness:
  "window (demo_env None sdk_missing) = Some (demo_window None)
   \<and> atob (demo_window None) ''AAECAwQFBgcICQoL'' = Inr (binary_string demo_nonce)
   \<and> length (char_codes (binary_string demo_nonce)) \<le> 12
   \<and> fst (decryptBase64Payload (demo_env None sdk_missing) ''AAECAwQFBgcICQoL'' demo_key (demo_state []))
       = Inl (Error ''Payload too short'')
   \<and> calls (snd (decryptBase64Payload (demo_env None sdk_missing) ''AAECAwQFBgcICQoL'' demo_key (demo_state [])))
       = [CallAtob ''AAECAwQFBgcICQoL'']"
proof -
  have l: "length (char_codes (binary_string demo_nonce)) \<le> 12"
    using demo_short_codes by simp
  show ?thesis
    using short_payload_rejected [OF demo_window_env demo_atob_short l,
            of None sdk_missing demo_key "demo_state []"]
          l demo_window_env [of None sdk_missing] demo_atob_short [of None]
    by (simp add: demo_state_fields)
qed

section \<open>Key derivation\<close>

text \<open>
  C4. \<open>deriveKeyFromSignature\<close> asks the platform for the SHA-256 digest of the UTF-8
  encoding (\<open>TextEncoder\<close>) of the signature string itself, and then imports that digest
  as a raw AES-GCM key, not extractable, with \<open>decrypt\<close> as its only usage; the key it
  returns is the imported one. These are its only outside calls. (That the digest has 32
  bytes is SHA-256's doing, not the function's.)
\<close>

theorem key_from_signature_text:
  assumes "subtle_digest env ''SHA-256'' (TextEncoder_encode env signature) = Inr h"
  shows "fst (deriveKeyFromSignature env signature st)
           = subtle_importKey env ''raw'' h ''AES-GCM'' False [''decrypt'']
         \<and> calls (snd (deriveKeyFromSignature env signature st))
             = calls st @ [CallDigest ''SHA-256'' (TextEncoder_encode env signature),
                           CallImportKey ''raw'' h ''AES-GCM'' False [''decrypt'']]"
  using assms by (simp add: deriveKeyFromSignature_def run_simps Let_def split: sum.splits)

theorem key_from_signature_text_witness:
  "subtle_digest (demo_env None sdk_missing) ''SHA-256''
       (TextEncoder_encode (demo_env None sdk_missing) demo_signature) = Inr demo_key
   \<and> length demo_key = 32
   \<and> fst (deriveKeyFromSignature (demo_env None sdk_missing) demo_signature (demo_state [])) = Inr demo_key
   \<and> calls (snd (deriveKeyFromSignature (demo_env None sdk_missing) demo_signature (demo_state [])))
       = [CallDigest ''SHA-256'' (char_codes demo_signature),
          CallImportKey ''raw'' demo_key ''AES-GCM'' False [''decrypt'']]"
proof -
  have i: "subtle_importKey (demo_env None sdk_missing) ''raw'' demo_key ''AES-GCM'' False [''decrypt'']
             = Inr demo_key"
    by (simp add: demo_env_def)
  have t: "TextEncoder_encode (demo_env None sdk_missing) demo_signature = char_codes demo_signature"
    by (simp add: demo_env_def)
  have l: "length demo_key = 32" by (simp add: demo_key_def)
  show ?thesis
    using key_from_signature_text [OF demo_digest, of None sdk_missing "demo_state []"]
          demo_digest [of None sdk_missing] i l
    by (simp add: demo_state_fields t)
qed

section \<open>Fetching\<close>

lemma sdk_attempt_fst:
  "fst (sdk_attempt env cid st) =
     (case import_0g_sdk env of Inl e \<Rightarrow> Inl e
      | Inr sdk \<Rightarrow> (case sdk_download sdk of None \<Rightarrow> Inr None
                    | Some dl \<Rightarrow> (case dl cid of Inl e \<Rightarrow> Inl e | Inr b \<Rightarrow> Inr (Some b))))"
  by (simp add: sdk_attempt_def run_simps split: sum.splits option.splits)

lemma sdk_attempt_calls:
  "calls (snd (sdk_attempt env cid st)) =
     calls st @ CallImportSdk #
       (case import_0g_sdk env of Inl e \<Rightarrow> []
        | Inr sdk \<Rightarrow> (case sdk_download sdk of None \<Rightarrow> [] | Some dl \<Rightarrow> [CallSdkDownload cid]))"
  by (simp add: sdk_attempt_def run_simps split: sum.splits option.splits)

lemma sdk_attempt_gw: "storageGateway (snd (sdk_attempt env cid st)) = storageGateway st"
  by (simp add: sdk_attempt_def run_simps split: sum.splits option.splits)

lemma gateway_attempt_fst:
  "fst (gateway_attempt env cid st) = gateway_source env (storageGateway st) cid"
  by (simp add: gateway_attempt_def gateway_source_def http_get_text_def run_simps Let_def
        split: sum.splits)

lemma gateway_attempt_calls:
  "calls (snd (gateway_attempt env cid st)) =
     calls st @ (if storageGateway st = [] then []
                 else [CallFetch (gateway_url (storageGateway st) cid)])"
  by (simp add: gateway_attempt_def run_simps Let_def split: sum.splits)

lemma fetch_body_client:
  assumes "window env = Some w" and "OGStorage w = Some dl"
  shows "fst (fetch_body env cid st) = dl cid"
    and "calls (snd (fetch_body env cid st)) = calls st @ [CallOGStorageDownload cid]"
  using assms by (simp_all add: fetch_body_def run_simps split: sum.splits)

lemma fetch_body_no_client:
  assumes "window env = Some w" and "OGStorage w = None"
  shows "fst (fetch_body env cid st) =
           (case sdk_source env cid of Inr b64 \<Rightarrow> Inr b64
            | Inl e \<Rightarrow> gateway_source env (storageGateway st) cid)"
    and "calls (snd (fetch_body env cid st)) =
           calls st @ CallImportSdk #
             (case import_0g_sdk env of Inl e \<Rightarrow> []
              | Inr sdk \<Rightarrow> (case sdk_download sdk of None \<Rightarrow> [] | Some dl \<Rightarrow> [CallSdkDownload cid])) @
             (case sdk_source env cid of Inr b64 \<Rightarrow> []
              | Inl e \<Rightarrow> if storageGateway st = [] then []
                         else [CallFetch (gateway_url (storageGateway st) cid)])"
proof -
  obtain r st1 where m: "sdk_attempt env cid st = (r, st1)"
    by (cases "sdk_attempt env cid st")
  have r: "r = (case import_0g_sdk env of Inl e \<Rightarrow> Inl e
      | Inr sdk \<Rightarrow> (case sdk_download sdk of None \<Rightarrow> Inr None
                    | Some dl \<Rightarrow> (case dl cid of Inl e \<Rightarrow> Inl e | Inr b \<Rightarrow> Inr (Some b))))"
    using sdk_attempt_fst [of env cid st] m by simp
  have c1: "calls st1 = calls st @ CallImportSdk #
       (case import_0g_sdk env of Inl e \<Rightarrow> []
        | Inr sdk \<Rightarrow> (case sdk_download sdk of None \<Rightarrow> [] | Some dl \<Rightarrow> [CallSdkDownload cid]))"
    using sdk_attempt_calls [of env cid st] m by simp
  have g1: "storageGateway st1 = storageGateway st"
    using sdk_attempt_gw [of env cid st] m by simp
  have body: "fetch_body env cid st =
      (case r of Inr (Some b64) \<Rightarrow> (Inr b64, st1) | _ \<Rightarrow> gateway_attempt env cid st1)"
    using assms by (simp add: fetch_body_def run_simps m split: sum.splits option.splits)
  show "fst (fetch_body env cid st) =
           (case sdk_source env cid of Inr b64 \<Rightarrow> Inr b64
            | Inl e \<Rightarrow> gateway_source env (storageGateway st) cid)"
    unfolding body r
    by (simp add: sdk_source_def gateway_attempt_fst g1 split: sum.splits option.splits)
  show "calls (snd (fetch_body env cid st)) =
           calls st @ CallImportSdk #
             (case import_0g_sdk env of Inl e \<Rightarrow> []
              | Inr sdk \<Rightarrow> (case sdk_download sdk of None \<Rightarrow> [] | Some dl \<Rightarrow> [CallSdkDownload cid])) @
             (case sdk_source env cid of Inr b64 \<Rightarrow> []
              | Inl e \<Rightarrow> if storageGateway st = [] then []
                         else [CallFetch (gateway_url (storageGateway st) cid)])"
    unfolding body r
    by (simp add: sdk_source_def gateway_attempt_calls g1 c1 split: sum.splits option.splits)
qed

lemma fetch_body_fst:
  assumes "window env = Some w"
  shows "fst (fetch_body env cid st) = fetch_by_availability w env (storageGateway st) cid"
  using assms fetch_body_client(1) [of env w _ cid st] fetch_body_no_client(1) [of env w cid st]
  by (cases "OGStorage w") (simp_all add: fetch_by_availability_def)

lemma fetch_body_calls:
  assumes "window env = Some w"
  shows "calls (snd (fetch_body env cid st)) = calls st @ fetch_calls w env (storageGateway st) cid"
  using assms fetch_body_client(2) [of env w _ cid st] fetch_body_no_client(2) [of env w cid st]
  by (cases "OGStorage w") (simp_all add: fetch_calls_def)

lemma fetchCidBase64_fst:
  "fst (fetchCidBase64 env cid st) =
     fst (fetch_body env cid (snd (addLog env (''Fetching CID: '' @ cid) st)))"
  by (simp add: fetchCidBase64_def run_simps split: sum.splits prod.splits)

lemma fetchCidBase64_calls:
  "calls (snd (fetchCidBase64 env cid st)) =
     calls (snd (fetch_body env cid (snd (addLog env (''Fetching CID: '' @ cid) st))))"
  by (simp add: fetchCidBase64_def run_simps split: sum.splits prod.splits)

lemma fetchCidBase64_result:
  assumes "window env = Some w"
  shows "fst (fetchCidBase64 env cid st) = fetch_by_availability w env (storageGateway st) cid"
    and "calls (snd (fetchCidBase64 env cid st)) = calls st @ fetch_calls w env (storageGateway st) cid"
  using assms
  by (simp_all add: fetchCidBase64_fst fetchCidBase64_calls fetch_body_fst fetch_body_calls addLog_run)

lemma demo_gateway_answer:
  "http_get_text (demo_env og sdk) ''https://gw.example/ab'' = Inr demo_b64"
  by (simp add: http_get_text_def demo_env_def ok_def demo_trim)

lemma demo_gateway_refusal:
  "http_get_text (demo_env og sdk) ''https://gw.example/zz'' = Inl (Error ''Gateway fetch failed: 404'')"
  by (simp add: http_get_text_def demo_env_def ok_def demo_404)

lemma demo_url_refused: "gateway_url ''https://gw.example'' ''0xzz'' = ''https://gw.example/zz''"
  by code_simp

text \<open>
  C5, as the claim states it, fails. With an injected client whose download throws, a
  gateway that is configured and answers with the payload, and no SDK, trying the
  sources in order until one succeeds gives the payload; \<open>fetchCidBase64\<close> throws the
  client's error, and the client's download is the only outside call it makes.
\<close>

theorem fetch_in_order_counterexample:
  "fetch_in_order_spec (demo_window unreachable_client) (demo_env unreachable_client sdk_missing)
       ''https://gw.example/'' ''0xab'' = Inr demo_b64
   \<and> fst (fetchCidBase64 (demo_env unreachable_client sdk_missing) ''0xab'' (demo_state ''https://gw.example/''))
       = Inl (Error ''storage node unreachable'')
   \<and> calls (snd (fetchCidBase64 (demo_env unreachable_client sdk_missing) ''0xab''
                    (demo_state ''https://gw.example/'')))
       = [CallOGStorageDownload ''0xab'']"
proof -
  have n: "''https://gw.example/'' @ normalizeCid ''0xab'' = ''https://gw.example/ab''"
    by code_simp
  have o: "OGStorage (demo_window unreachable_client)
             = Some (\<lambda>cid. Inl (Error ''storage node unreachable''))"
    by (simp add: demo_window_def unreachable_client_def)
  have spec: "fetch_in_order_spec (demo_window unreachable_client)
                (demo_env unreachable_client sdk_missing) ''https://gw.example/'' ''0xab'' = Inr demo_b64"
    unfolding fetch_in_order_spec_def n demo_gateway_answer
    by (simp add: global_source_def sdk_source_def o)
       (simp add: demo_env_def sdk_missing_def)
  show ?thesis
    using spec
      fetchCidBase64_result [OF demo_window_env, of unreachable_client sdk_missing "''0xab''"
        "demo_state ''https://gw.example/''"]
    by (simp add: fetch_by_availability_def fetch_calls_def o demo_state_fields)
qed

text \<open>
  C5, amended. \<open>fetchCidBase64\<close> chooses the source by availability, in priority
  order. When the injected client is there, its download is called and its outcome,
  value or failure, is the outcome of the fetch. Otherwise the SDK is imported, and when
  it has a download function that returns, that value is the outcome. Otherwise (the
  import fails, there is no download function, or the download throws) the fetch fails
  when no gateway is configured, and else is a GET of the gateway base URL, a \<open>/\<close>
  added unless the base ends with one, followed by the identifier without a leading
  \<open>0x\<close>: a status outside 200 to 299 makes the fetch fail, and else the body as
  the platform's \<open>trim\<close> returns it is the outcome. The outside calls made are those
  of the sources used, in that order.
\<close>

theorem fetch_chooses_by_availability:
  assumes "window env = Some w"
  shows "fst (fetchCidBase64 env cid st) = fetch_by_availability w env (storageGateway st) cid
         \<and> calls (snd (fetchCidBase64 env cid st)) = calls st @ fetch_calls w env (storageGateway st) cid"
  using assms
  by (simp add: fetchCidBase64_fst fetchCidBase64_calls fetch_body_fst fetch_body_calls addLog_run)

theorem fetch_chooses_by_availability_witness:
  "window (demo_env None sdk_missing) = Some (demo_window None)
   \<and> fst (fetchCidBase64 (demo_env None sdk_missing) ''0xab'' (demo_state ''https://gw.example''))
       = Inr demo_b64
   \<and> calls (snd (fetchCidBase64 (demo_env None sdk_missing) ''0xab'' (demo_state ''https://gw.example'')))
       = [CallImportSdk, CallFetch ''https://gw.example/ab'']
   \<and> fst (fetchCidBase64 (demo_env None sdk_missing) ''0xzz'' (demo_state ''https://gw.example''))
       = Inl (Error ''Gateway fetch failed: 404'')"
proof -
  have o: "OGStorage (demo_window None) = None"
    by (simp add: demo_window_def)
  have s: "sdk_source (demo_env None sdk_missing) ''0xab'' = Inl (Error ''Failed to resolve module specifier'')"
    by (simp add: sdk_source_def demo_env_def sdk_missing_def)
  have i: "import_0g_sdk (demo_env None sdk_missing) = Inl (Error ''Failed to resolve module specifier'')"
    by (simp add: demo_env_def sdk_missing_def)
  have s': "sdk_source (demo_env None sdk_missing) ''0xzz'' = Inl (Error ''Failed to resolve module specifier'')"
    by (simp add: sdk_source_def demo_env_def sdk_missing_def)
  have g: "gateway_source (demo_env None sdk_missing) ''https://gw.example'' ''0xab'' = Inr demo_b64"
    by (simp add: gateway_source_def demo_url demo_gateway_answer)
  have g': "gateway_source (demo_env None sdk_missing) ''https://gw.example'' ''0xzz''
              = Inl (Error ''Gateway fetch failed: 404'')"
    by (simp add: gateway_source_def demo_url_refused demo_gateway_refusal)
  show ?thesis
    using fetch_chooses_by_availability [OF demo_window_env, of None sdk_missing "''0xab''"
            "demo_state ''https://gw.example''"]
          fetch_chooses_by_availability [OF demo_window_env, of None sdk_missing "''0xzz''"
            "demo_state ''https://gw.example''"]
          demo_window_env [of None sdk_missing]
    by (simp add: fetch_by_availability_def fetch_calls_def o s s' i g g' demo_state_fields demo_url)
qed

text \<open>
  C10. With no injected client, an SDK whose import fails or that has no download
  function, and the empty gateway URL, \<open>fetchCidBase64\<close> throws the error
  \<open>No storage gateway configured and 0g SDK not available.\<close>, and the import is the
  only outside call it makes: no HTTP request is issued.
\<close>

theorem no_gateway_no_sdk:
  assumes "window env = Some w" and "OGStorage w = None"
    and "isl (import_0g_sdk env) \<or> (\<exists>sdk. import_0g_sdk env = Inr sdk \<and> sdk_download sdk = None)"
    and "storageGateway st = []"
  shows "fst (fetchCidBase64 env cid st)
           = Inl (Error ''No storage gateway configured and 0g SDK not available.'')
         \<and> calls (snd (fetchCidBase64 env cid st)) = calls st @ [CallImportSdk]"
  using assms
  by (auto simp: fetchCidBase64_fst fetchCidBase64_calls fetch_body_fst fetch_body_calls addLog_run
      fetch_by_availability_def fetch_calls_def sdk_source_def gateway_source_def isl_def)

theorem no_gateway_no_sdk_witness:
  "window (demo_env None sdk_missing) = Some (demo_window None)
   \<and> OGStorage (demo_window None) = None
   \<and> isl (import_0g_sdk (demo_env None sdk_missing))
   \<and> storageGateway (demo_state []) = []
   \<and> fst (fetchCidBase64 (demo_env None sdk_missing) ''0xab'' (demo_state []))
       = Inl (Error ''No storage gateway configured and 0g SDK not available.'')
   \<and> calls (snd (fetchCidBase64 (demo_env None sdk_missing) ''0xab'' (demo_state []))) = [CallImportSdk]
   \<and> (\<exists>sdk. import_0g_sdk (demo_env None sdk_without_download) = Inr sdk \<and> sdk_download sdk = None)
   \<and> fst (fetchCidBase64 (demo_env None sdk_without_download) ''0xab'' (demo_state []))
       = Inl (Error ''No storage gateway configured and 0g SDK not available.'')
   \<and> calls (snd (fetchCidBase64 (demo_env None sdk_without_download) ''0xab'' (demo_state [])))
       = [CallImportSdk]"
proof -
  have o: "OGStorage (demo_window None) = None"
    by (simp add: demo_window_def)
  have i1: "isl (import_0g_sdk (demo_env None sdk_missing))"
    by (simp add: demo_env_def sdk_missing_def)
  have i2: "\<exists>sdk. import_0g_sdk (demo_env None sdk_without_download) = Inr sdk \<and> sdk_download sdk = None"
    by (simp add: demo_env_def sdk_without_download_def)
  have g: "storageGateway (demo_state []) = []"
    by (simp add: demo_state_fields)
  show ?thesis
    using no_gateway_no_sdk [OF demo_window_env o disjI1 [OF i1] g, of "''0xab''"]
          no_gateway_no_sdk [OF demo_window_env o disjI2 [OF i2] g, of "''0xab''"]
          demo_window_env [of None sdk_missing] o i1 i2
    by (simp add: demo_state_fields)
qed

section \<open>More facts of the recorded run\<close>

lemma demo_fields:
  "window (demo_env og sdk) = Some (demo_window og)"
  "clock (demo_env og sdk) n = 1700000000000 + 250 * n"
  "toLocaleTimeString (demo_env og sdk) t = ''12:00:00''"
  "import_0g_sdk (demo_env og sdk) = sdk"
  "TextEncoder_encode (demo_env og sdk) = char_codes"
  "subtle_importKey (demo_env og sdk) fmt raw alg ext us = Inr raw"
  "fetch (demo_env og sdk) ''https://gw.example/ab'' = Inr \<lparr>status = 200, text_body = Inr (demo_b64 @ [CHR 0x0A])\<rparr>"
  by (simp_all add: demo_env_def)

lemma demo_connected_fields:
  "signer (demo_connected a gw) = Some demo_signer"
  "connectedAddress (demo_connected a gw) = Some a"
  "storageGateway (demo_connected a gw) = gw"
  "calls (demo_connected a gw) = []"
  "clock_reads (demo_connected a gw) = 0"
  by (simp_all add: demo_connected_def initial_state_def)

lemma demo_owner_lower:
  "toLowerCase ''0x6F4D829488686afd8D9B68AE56986C312784C0e6'' = OWNER_ADDRESS"
  by (simp add: OWNER_ADDRESS_def)

lemma demo_lengths: "length demo_nonce = 12" "length demo_sealed = 21"
  by (simp_all add: demo_nonce_def demo_sealed_def)


section \<open>The guards of the download action\<close>

text \<open>
  C3. When the signer is missing, or no address is connected, or the connected address
  in lower case differs from the owner address, or the token has no content identifier,
  \<open>handleDownload\<close> returns after adding one line to the log and makes no outside
  call: nothing is signed and nothing is fetched.
\<close>

theorem download_guards:
  assumes "signer st = None \<or> connectedAddress st = None
           \<or> (\<exists>a. connectedAddress st = Some a \<and> toLowerCase a \<noteq> OWNER_ADDRESS)
           \<or> storageCid tok = []"
  shows "fst (handleDownload env tok st) = Inr ()
         \<and> calls (snd (handleDownload env tok st)) = calls st
         \<and> (\<exists>msg \<in> {''Connect wallet first'',
                       ''Connected address does not match owner '' @ em_dash @ '' download not allowed'',
                       ''No storage CID for this token. Fill it in code or metadata.''}.
               logs (snd (handleDownload env tok st))
                 = push_log (toLocaleTimeString env (clock env (clock_reads st)) @ log_sep @ msg) (logs st))"
proof -
  have "\<exists>msg \<in> {''Connect wallet first'',
                       ''Connected address does not match owner '' @ em_dash @ '' download not allowed'',
                       ''No storage CID for this token. Fill it in code or metadata.''}.
          handleDownload env tok st = addLog env msg st"
    using assms
    by (cases "signer st"; cases "connectedAddress st") (auto simp: handleDownload_def)
  then obtain msg where m: "msg \<in> {''Connect wallet first'',
                       ''Connected address does not match owner '' @ em_dash @ '' download not allowed'',
                       ''No storage CID for this token. Fill it in code or metadata.''}"
    and h: "handleDownload env tok st = addLog env msg st"
    by blast
  show ?thesis
    unfolding h using m by (auto simp: addLog_run)
qed

theorem download_guards_witness:
  "signer (initial_state :: (byte list) app_state) = None
   \<and> calls (snd (handleDownload (demo_env None sdk_missing) demo_token initial_state)) = []
   \<and> connectedAddress (demo_connected ''0x000000000000000000000000000000000000dEaD'' ''https://gw.example'')
       = Some ''0x000000000000000000000000000000000000dEaD''
   \<and> toLowerCase ''0x000000000000000000000000000000000000dEaD'' \<noteq> OWNER_ADDRESS
   \<and> calls (snd (handleDownload (demo_env None sdk_missing) demo_token
                    (demo_connected ''0x000000000000000000000000000000000000dEaD'' ''https://gw.example''))) = []
   \<and> storageCid (hd TOKENS) = []
   \<and> calls (snd (handleDownload (demo_env None sdk_missing) (hd TOKENS)
                    (demo_connected ''0x6F4D829488686afd8D9B68AE56986C312784C0e6'' ''https://gw.example''))) = []"
proof -
  have s: "signer (initial_state :: (byte list) app_state) = None"
    by (simp add: initial_state_def)
  have a: "connectedAddress (demo_connected ''0x000000000000000000000000000000000000dEaD'' ''https://gw.example'')
             = Some ''0x000000000000000000000000000000000000dEaD''"
    by (simp add: demo_connected_def)
  have d: "toLowerCase ''0x000000000000000000000000000000000000dEaD'' \<noteq> OWNER_ADDRESS"
    by code_simp
  have t: "storageCid (hd TOKENS) = []"
    by (simp add: TOKENS_def)
  have c: "calls (initial_state :: (byte list) app_state) = []" "calls (demo_connected x y) = []" for x y
    by (simp_all add: initial_state_def demo_connected_def)
  have h1: "signer (initial_state :: (byte list) app_state) = None
            \<or> connectedAddress (initial_state :: (byte list) app_state) = None
            \<or> (\<exists>a. connectedAddress (initial_state :: (byte list) app_state) = Some a
                    \<and> toLowerCase a \<noteq> OWNER_ADDRESS)
            \<or> storageCid demo_token = []"
    using s by simp
  show ?thesis
    using download_guards [OF h1, of "demo_env None sdk_missing"]
          download_guards [of "demo_connected ''0x000000000000000000000000000000000000dEaD'' ''https://gw.example''"
                              demo_token "demo_env None sdk_missing"]
          download_guards [of "demo_connected ''0x6F4D829488686afd8D9B68AE56986C312784C0e6'' ''https://gw.example''"
                              "hd TOKENS" "demo_env None sdk_missing"]
          s a d t
    by (simp add: c)
qed

text \<open>
  When every guard passes, the action runs: on the recorded run it signs the challenge,
  derives the key, fetches through the gateway, decrypts and saves the plaintext.
\<close>

lemma download_runs_when_allowed:
  "calls (snd (handleDownload (demo_env None sdk_missing) demo_token
                 (demo_connected ''0x6F4D829488686afd8D9B68AE56986C312784C0e6'' ''https://gw.example'')))
     = [CallSignMessage ''0g-download:0x4884f459...02:1700000000000'',
        CallDigest ''SHA-256'' (char_codes demo_signature),
        CallImportKey ''raw'' demo_key ''AES-GCM'' False [''decrypt''],
        CallImportSdk,
        CallFetch ''https://gw.example/ab'',
        CallAtob demo_b64,
        CallDecrypt ''AES-GCM'' demo_nonce demo_key demo_sealed,
        CallSaveFile ''hello.txt'' demo_plain]"
  apply (simp add: handleDownload_def demo_connected_fields demo_owner_lower demo_token_def)
  apply (simp add: download_steps_def run_simps read_clock_def demo_connected_fields demo_fields
      demo_challenge demo_signer_def Let_def deriveKeyFromSignature_def demo_digest [unfolded demo_fields])
  apply (simp add: fetchCidBase64_def fetch_body_def sdk_attempt_def gateway_attempt_def run_simps
      demo_fields demo_window_def sdk_missing_def demo_connected_fields demo_url [unfolded gateway_url_def Let_def] Let_def
      gateway_url_def ok_def demo_trim)
  apply (simp add: decryptBase64Payload_def base64ToBytes_def run_simps demo_fields demo_window_def
      demo_codes demo_decrypt Let_def demo_lengths)
  done

section \<open>The log stays within 200 lines\<close>

lemma keeps_boundD:
  "keeps_bound m \<Longrightarrow> length (logs st) \<le> 200 \<Longrightarrow> length (logs (snd (m st))) \<le> 200"
  unfolding keeps_bound_def by blast

lemma keeps_ret: "keeps_bound (ret x)"
  by (simp add: keeps_bound_def ret_def)

lemma keeps_throw: "keeps_bound (throw e)"
  by (simp add: keeps_bound_def throw_def)

lemma keeps_outside: "keeps_bound (outside c r)"
  by (simp add: keeps_bound_def outside_def)

lemma keeps_addLog: "keeps_bound (addLog env msg)"
  by (simp add: keeps_bound_def addLog_run push_log_def)

lemma keeps_read_clock: "keeps_bound (read_clock env)"
  by (simp add: keeps_bound_def read_clock_def)

lemma keeps_andThen:
  assumes "keeps_bound m" and "\<And>x. keeps_bound (f x)"
  shows "keeps_bound (andThen m f)"
  unfolding keeps_bound_def
proof (intro allI impI)
  fix st :: "'a app_state"
  assume b: "length (logs st) \<le> 200"
  obtain r st1 where m: "m st = (r, st1)" by (cases "m st")
  have b1: "length (logs st1) \<le> 200"
    using keeps_boundD [OF assms(1) b] m by simp
  show "length (logs (snd (andThen m f st))) \<le> 200"
  proof (cases r)
    case (Inl e)
    then show ?thesis using m b1 by (simp add: andThen_run)
  next
    case (Inr x)
    then show ?thesis using m keeps_boundD [OF assms(2) b1, of x] by (simp add: andThen_run)
  qed
qed

lemma keeps_tryCatch:
  assumes "keeps_bound m" and "\<And>e. keeps_bound (h e)"
  shows "keeps_bound (tryCatch m h)"
  unfolding keeps_bound_def
proof (intro allI impI)
  fix st :: "'a app_state"
  assume b: "length (logs st) \<le> 200"
  obtain r st1 where m: "m st = (r, st1)" by (cases "m st")
  have b1: "length (logs st1) \<le> 200"
    using keeps_boundD [OF assms(1) b] m by simp
  show "length (logs (snd (tryCatch m h st))) \<le> 200"
  proof (cases r)
    case (Inl e)
    then show ?thesis using m keeps_boundD [OF assms(2) b1, of e] by (simp add: tryCatch_run)
  next
    case (Inr x)
    then show ?thesis using m b1 by (simp add: tryCatch_run)
  qed
qed

lemma keeps_same_logs:
  assumes "\<And>st. logs (g st) = logs st"
  shows "keeps_bound (\<lambda>st. (r st, g st))"
  using assms by (simp add: keeps_bound_def)

lemma keeps_text: "keeps_bound (\<lambda>st'. (r, st'))"
  by (simp add: keeps_bound_def)

lemmas keeps_intros = keeps_ret keeps_throw keeps_outside keeps_addLog keeps_read_clock
  keeps_andThen keeps_tryCatch

lemma keeps_connect: "keeps_bound (connectWalletConnect env)"
  unfolding connectWalletConnect_def
  by (intro keeps_intros keeps_same_logs) simp

lemma keeps_disconnect: "keeps_bound (disconnect env)"
proof -
  have "keeps_bound (\<lambda>st. case provider st of
                 Some (Provider (Some d)) \<Rightarrow>
                   tryCatch (outside CallDisconnect d) (\<lambda>_. ret ()) st
               | _ \<Rightarrow> (Inr (), st))"
    by (auto simp: keeps_bound_def tryCatch_run outside_run ret_run
          split: option.splits provider.splits sum.splits)
  then show ?thesis
    unfolding disconnect_def
    by (intro keeps_intros keeps_same_logs) simp_all
qed

lemma keeps_sdk_attempt: "keeps_bound (sdk_attempt env cid)"
  unfolding sdk_attempt_def
  by (intro keeps_intros) (auto intro!: keeps_intros split: option.splits)

lemma keeps_gateway_inner:
  "keeps_bound (andThen (outside (CallFetch url) (fetch env url)) (\<lambda>res.
             if \<not> ok res
             then throw (Error (''Gateway fetch failed: '' @ show_nat (status res)))
             else andThen (\<lambda>st'. (text_body res, st')) (\<lambda>txt.
                  andThen (addLog env ''Fetched via HTTP gateway'') (\<lambda>_.
                  ret (String_trim env txt)))))"
proof (rule keeps_andThen)
  show "keeps_bound (outside (CallFetch url) (fetch env url))"
    by (rule keeps_outside)
next
  fix res
  show "keeps_bound (if \<not> ok res
             then throw (Error (''Gateway fetch failed: '' @ show_nat (status res)))
             else andThen (\<lambda>st'. (text_body res, st')) (\<lambda>txt.
                  andThen (addLog env ''Fetched via HTTP gateway'') (\<lambda>_.
                  ret (String_trim env txt))))"
    by (cases "ok res") (simp_all add: keeps_throw keeps_andThen keeps_text keeps_addLog keeps_ret)
qed

lemma keeps_gateway_attempt: "keeps_bound (gateway_attempt env cid)"
  unfolding keeps_bound_def
proof (intro allI impI)
  fix st :: "'a app_state"
  assume b: "length (logs st) \<le> 200"
  show "length (logs (snd (gateway_attempt env cid st))) \<le> 200"
  proof (cases "storageGateway st = []")
    case True
    then show ?thesis using b by (simp add: gateway_attempt_def throw_run)
  next
    case False
    then show ?thesis
      using keeps_boundD [OF keeps_gateway_inner b, of "gateway_url (storageGateway st) cid" env]
      by (simp add: gateway_attempt_def Let_def)
  qed
qed

lemma keeps_fetch_body: "keeps_bound (fetch_body env cid)"
proof (cases "window env")
  case None
  then show ?thesis by (simp add: fetch_body_def keeps_throw)
next
  case (Some w)
  show ?thesis
  proof (cases "OGStorage w")
    case None
    have "keeps_bound (andThen (tryCatch (sdk_attempt env cid) (\<lambda>e. ret None)) (\<lambda>r.
                 case r of Some b64 \<Rightarrow> ret b64 | None \<Rightarrow> gateway_attempt env cid))"
    proof (rule keeps_andThen)
      show "keeps_bound (tryCatch (sdk_attempt env cid) (\<lambda>e. ret None))"
        by (intro keeps_tryCatch keeps_sdk_attempt keeps_ret)
    next
      fix r :: "string option"
      show "keeps_bound (case r of Some b64 \<Rightarrow> ret b64 | None \<Rightarrow> gateway_attempt env cid)"
        by (cases r) (simp_all add: keeps_ret keeps_gateway_attempt)
    qed
    then show ?thesis using Some None by (simp add: fetch_body_def)
  next
    case (Some dl)
    have "keeps_bound (andThen (outside (CallOGStorageDownload cid) (dl cid)) (\<lambda>b64.
               andThen (addLog env ''Fetched via global OGStorage'') (\<lambda>_.
               ret b64)))"
      by (intro keeps_intros)
    then show ?thesis using \<open>window env = Some w\<close> Some by (simp add: fetch_body_def)
  qed
qed

lemma keeps_fetchCidBase64: "keeps_bound (fetchCidBase64 env cid)"
  unfolding fetchCidBase64_def
  by (intro keeps_intros keeps_fetch_body)

lemma keeps_base64ToBytes: "keeps_bound (base64ToBytes env b64)"
proof (cases "window env")
  case None
  then show ?thesis by (simp add: base64ToBytes_def keeps_throw)
next
  case (Some w)
  have "keeps_bound (andThen (outside (CallAtob b64) (atob w b64)) (\<lambda>binaryString.
          ret (char_codes binaryString)))"
    by (intro keeps_intros)
  then show ?thesis using Some by (simp add: base64ToBytes_def)
qed

lemma keeps_deriveKey: "keeps_bound (deriveKeyFromSignature env sg)"
  unfolding deriveKeyFromSignature_def Let_def
  by (intro keeps_intros)

lemma keeps_decrypt: "keeps_bound (decryptBase64Payload env b64 key)"
  unfolding decryptBase64Payload_def Let_def
proof (rule keeps_andThen)
  show "keeps_bound (base64ToBytes env b64)" by (rule keeps_base64ToBytes)
next
  fix bytes :: "byte list"
  show "keeps_bound (if length bytes \<le> 12 then throw (Error ''Payload too short'')
          else andThen (outside (CallDecrypt ''AES-GCM'' (take 12 bytes) key (drop 12 bytes))
                          (subtle_decrypt env ''AES-GCM'' (take 12 bytes) key (drop 12 bytes))) ret)"
    by (cases "length bytes \<le> 12") (simp_all add: keeps_throw keeps_andThen keeps_outside keeps_ret)
qed

lemma keeps_download_steps: "keeps_bound (download_steps env sg tok)"
  unfolding download_steps_def Let_def
  by (intro keeps_intros keeps_fetchCidBase64 keeps_deriveKey keeps_decrypt)

lemma keeps_handleDownload: "keeps_bound (handleDownload env tok)"
  unfolding keeps_bound_def
proof (intro allI impI)
  fix st :: "'a app_state"
  assume b: "length (logs st) \<le> 200"
  have t: "keeps_bound (tryCatch (download_steps env sg tok) (\<lambda>err.
             andThen (outside (CallConsoleError err) (Inr ())) (\<lambda>_.
             addLog env (''Download/decrypt failed: '' @ exn_text err))))" for sg
    by (intro keeps_intros keeps_download_steps)
  have l: "length (logs (snd (addLog env msg st))) \<le> 200" for msg
    by (simp add: addLog_run push_log_def)
  show "length (logs (snd (handleDownload env tok st))) \<le> 200"
  proof (cases "signer st")
    case None
    then show ?thesis using l by (simp add: handleDownload_def)
  next
    case (Some sg)
    note sg = this
    show ?thesis
    proof (cases "connectedAddress st")
      case None
      then show ?thesis using l sg by (simp add: handleDownload_def)
    next
      case (Some addr)
      then show ?thesis
        using l sg keeps_boundD [OF t b, of sg]
        by (simp add: handleDownload_def)
    qed
  qed
qed

text \<open>
  C9. After \<open>addLog\<close> the log is the new line followed by the 199 newest lines of the
  old log, in their order: the newest line is first, the oldest lines beyond 200 are
  dropped, and the length is at most 200. Hence every operation that adds log lines
  (connecting, disconnecting, fetching, the download action) keeps the bound of 200.
\<close>

theorem log_bounded_newest_first:
  "logs (snd (addLog env msg st))
     = (toLocaleTimeString env (clock env (clock_reads st)) @ log_sep @ msg) # take 199 (logs st)
   \<and> length (logs (snd (addLog env msg st))) \<le> 200
   \<and> (length (logs st) \<le> 200 \<longrightarrow>
        length (logs (snd (connectWalletConnect env st))) \<le> 200
      \<and> length (logs (snd (disconnect env st))) \<le> 200
      \<and> length (logs (snd (fetchCidBase64 env cid st))) \<le> 200
      \<and> length (logs (snd (handleDownload env tok st))) \<le> 200)"
proof (intro conjI impI)
  show "logs (snd (addLog env msg st))
     = (toLocaleTimeString env (clock env (clock_reads st)) @ log_sep @ msg) # take 199 (logs st)"
    by (simp add: addLog_run push_log_eq)
  show "length (logs (snd (addLog env msg st))) \<le> 200"
    by (simp add: addLog_run push_log_def)
next
  assume b: "length (logs st) \<le> 200"
  show "length (logs (snd (connectWalletConnect env st))) \<le> 200"
    using keeps_connect b by (rule keeps_boundD)
  show "length (logs (snd (disconnect env st))) \<le> 200"
    using keeps_disconnect b by (rule keeps_boundD)
  show "length (logs (snd (fetchCidBase64 env cid st))) \<le> 200"
    using keeps_fetchCidBase64 b by (rule keeps_boundD)
  show "length (logs (snd (handleDownload env tok st))) \<le> 200"
    using keeps_handleDownload b by (rule keeps_boundD)
qed

theorem log_bounded_newest_first_witness:
  "length (logs full_log) \<le> 200
   \<and> logs (snd (addLog (demo_env None sdk_missing) ''Disconnected'' full_log))
       = (''12:00:00'' @ log_sep @ ''Disconnected'') # replicate 199 ''12:00:00 old''
   \<and> length (logs (snd (addLog (demo_env None sdk_missing) ''Disconnected'' full_log))) \<le> 200
   \<and> length (logs (snd (connectWalletConnect (demo_env None sdk_missing) full_log))) \<le> 200
   \<and> length (logs (snd (disconnect (demo_env None sdk_missing) full_log))) \<le> 200
   \<and> length (logs (snd (fetchCidBase64 (demo_env None sdk_missing) ''0xab'' full_log))) \<le> 200
   \<and> length (logs (snd (handleDownload (demo_env None sdk_missing) demo_token full_log))) \<le> 200"
proof -
  have f: "logs full_log = replicate 200 ''12:00:00 old''" "clock_reads full_log = 0"
    by (simp_all add: full_log_def initial_state_def)
  show ?thesis
    using log_bounded_newest_first [of "demo_env None sdk_missing" "''Disconnected''" full_log
            "''0xab''" demo_token]
    by (simp add: f demo_fields)
qed

end
